theory Spec2Isabelle
  imports Main "HOL-Library.Word"
begin

section \<open>Data model of the client library (\<^verbatim>\<open>lib/source.c\<close>)\<close>

type_synonym byte = "8 word"

text \<open>A C \<^verbatim>\<open>int\<close>: the fields of \<^verbatim>\<open>IplImage\<close> and the arguments of the
  \<^verbatim>\<open>%d\<close> conversions. Read as a signed number with \<^const>\<open>sint\<close>.\<close>

type_synonym c_int = "32 word"

text \<open>Modelled from the spec: the error constants of \<^verbatim>\<open>svr.h\<close>, which is not among the
  sources. The spec's error taxonomy (section 7) is a closed set of twelve distinct codes,
  \<^verbatim>\<open>0 = SUCCESS\<close>; the constructors carry the names \<^verbatim>\<open>source.c\<close> uses.\<close>

datatype return_code =
    SVR_SUCCESS
  | SVR_PARSEERROR
  | SVR_NOSUCHENCODING
  | SVR_NOSUCHSOURCE
  | SVR_NOSUCHSTREAM
  | SVR_NAMEINUSE
  | SVR_INVALIDSTATE
  | SVR_INVALIDARGUMENT
  | SVR_UNAUTHORIZED
  | SVR_TIMEOUT
  | SVR_PEERDISCONNECTED
  | SVR_INTERNAL

text \<open>The part of OpenCV's \<^verbatim>\<open>IplImage\<close> that \<^verbatim>\<open>SVR_Source_sendFrame\<close> reads, and the
  pixel data the encoder consumes.\<close>

record IplImage =
  nChannels :: c_int
  depth :: c_int
  width :: c_int
  height :: c_int
  imageData :: "byte list"

record SVR_FrameProperties =
  width :: c_int
  height :: c_int
  depth :: c_int
  channels :: c_int

text \<open>A parsed option string: a dictionary from keys to values.\<close>

type_synonym Dictionary = "(string \<times> string) list"

definition Dictionary_get :: "Dictionary \<Rightarrow> string \<Rightarrow> string option" where
  "Dictionary_get d k = map_of d k"

text \<open>A registered encoding. The library only passes the pointer around.\<close>

datatype SVR_Encoding = Encoding string

text \<open>A message: its text components and its payload (\<^verbatim>\<open>payload_size\<close> is the length of
  the payload list).\<close>

record SVR_Message =
  components :: "string list"
  payload :: "byte list"

text \<open>Everything handed to \<^verbatim>\<open>SVR_Comm_sendMessage\<close> so far, oldest first, each message with
  the \<^verbatim>\<open>is_request\<close> flag it was sent with.\<close>

type_synonym wire = "(SVR_Message \<times> bool) list"

text \<open>Modelled from the spec: the encoder, whose implementation is not among the sources.
  Section 4.3: an encoder is a push-in/pull-out engine bound to fixed frame properties and
  options; \<^verbatim>\<open>encode(frame)\<close> pushes one frame, \<^verbatim>\<open>data_ready()\<close> is the number of bytes
  pending, \<^verbatim>\<open>read_data(buf, cap)\<close> drains at most \<^verbatim>\<open>cap\<close> of them. The field \<open>frames_in\<close>
  counts the frames pushed so far.\<close>

record SVR_Encoder =
  enc_encoding :: SVR_Encoding
  enc_options :: "Dictionary option"
  enc_properties :: SVR_FrameProperties
  pending :: "byte list"
  frames_in :: nat

record SVR_Source =
  name :: string
  encoding :: "SVR_Encoding option"
  encoding_options :: "Dictionary option"
  encoder :: "SVR_Encoder option"
  frame_properties :: "SVR_FrameProperties option"
  payload_buffer_size :: nat

text \<open>The collaborators of \<^verbatim>\<open>source.c\<close> that live outside it: the option-string parser,
  the encoding registry, the server at the other end of the connection (its response to the
  latest request, given everything sent so far), the reading of a response's status, and
  the bytes a codec produces for one frame.\<close>

record env =
  SVR_parseOptionString :: "string \<Rightarrow> Dictionary option"
  SVR_Encoding_getByName :: "string option \<Rightarrow> SVR_Encoding option"
  server_response :: "wire \<Rightarrow> SVR_Message"
  SVR_Comm_parseResponse :: "SVR_Message option \<Rightarrow> return_code"
  codec_output :: "SVR_Encoding \<Rightarrow> Dictionary option \<Rightarrow> SVR_FrameProperties \<Rightarrow> IplImage \<Rightarrow> byte list"

section \<open>Communication and encoder primitives\<close>

text \<open>Modelled from the spec: \<^verbatim>\<open>SVR_Message_new(n)\<close>, which is not among the sources,
  followed by the assignments of the \<open>n\<close> components. Section 3: a message is an ordered
  sequence of text components and an optional payload; a new message has no payload.\<close>

definition SVR_Message_new :: "string list \<Rightarrow> SVR_Message" where
  "SVR_Message_new cs = \<lparr>components = cs, payload = []\<rparr>"

text \<open>Modelled from the spec: \<^verbatim>\<open>SVR_Comm_sendMessage(message, is_request)\<close>, which is not
  among the sources. Section 4.1: a message sent as a request blocks until the response
  arrives; a message sent otherwise is enqueued and nothing comes back. The message goes on
  the wire in both cases.\<close>

definition SVR_Comm_sendMessage ::
  "env \<Rightarrow> SVR_Message \<Rightarrow> bool \<Rightarrow> wire \<Rightarrow> SVR_Message option \<times> wire" where
  "SVR_Comm_sendMessage e message is_request w =
     (let w' = w @ [(message, is_request)]
      in (if is_request then Some (server_response e w') else None, w'))"

text \<open>The pattern every verb of \<^verbatim>\<open>source.c\<close> uses: send a request, read the status of
  its response.\<close>

definition request :: "env \<Rightarrow> SVR_Message \<Rightarrow> wire \<Rightarrow> return_code \<times> wire" where
  "request e message w =
     (let (response, w') = SVR_Comm_sendMessage e message True w
      in (SVR_Comm_parseResponse e response, w'))"

text \<open>Modelled from the spec: \<^verbatim>\<open>SVR_Encoder_new\<close>, not among the sources. A new encoder is
  bound to its encoding, options and frame properties, and holds no data.\<close>

definition SVR_Encoder_new ::
  "SVR_Encoding \<Rightarrow> Dictionary option \<Rightarrow> SVR_FrameProperties \<Rightarrow> SVR_Encoder" where
  "SVR_Encoder_new enc opts props =
     \<lparr>enc_encoding = enc, enc_options = opts, enc_properties = props, pending = [], frames_in = 0\<rparr>"

text \<open>Modelled from the spec: \<^verbatim>\<open>SVR_Encoder_encode\<close>, not among the sources. Pushing a
  frame appends the codec's output for it to the pending bytes.\<close>

definition SVR_Encoder_encode :: "env \<Rightarrow> SVR_Encoder \<Rightarrow> IplImage \<Rightarrow> SVR_Encoder" where
  "SVR_Encoder_encode e enc frame =
     enc\<lparr>pending := pending enc @
                     codec_output e (enc_encoding enc) (enc_options enc) (enc_properties enc) frame,
         frames_in := Suc (frames_in enc)\<rparr>"

text \<open>Modelled from the spec: \<^verbatim>\<open>SVR_Encoder_dataReady\<close>, not among the sources: the number
  of bytes pending.\<close>

definition SVR_Encoder_dataReady :: "SVR_Encoder \<Rightarrow> nat" where
  "SVR_Encoder_dataReady enc = length (pending enc)"

text \<open>Modelled from the spec: \<^verbatim>\<open>SVR_Encoder_readData(encoder, buffer, cap)\<close>, not among
  the sources: the first \<open>cap\<close> pending bytes (all of them when there are fewer) leave the
  encoder.\<close>

definition SVR_Encoder_readData :: "SVR_Encoder \<Rightarrow> nat \<Rightarrow> byte list \<times> SVR_Encoder" where
  "SVR_Encoder_readData enc cap = (take cap (pending enc), enc\<lparr>pending := drop cap (pending enc)\<rparr>)"

section \<open>The operations of \<^verbatim>\<open>source.c\<close>\<close>

definition SVR_Source_setEncoding ::
  "env \<Rightarrow> SVR_Source \<Rightarrow> string \<Rightarrow> wire \<Rightarrow> return_code \<times> SVR_Source \<times> wire" where
  "SVR_Source_setEncoding e source encoding_descriptor w =
     (case SVR_parseOptionString e encoding_descriptor of
        None \<Rightarrow> (SVR_PARSEERROR, source, w)
      | Some options \<Rightarrow>
         (case SVR_Encoding_getByName e (Dictionary_get options ''%name'') of
            None \<Rightarrow> (SVR_NOSUCHENCODING, source, w)
          | Some enc \<Rightarrow>
             (let message = SVR_Message_new
                              [''Source.setEncoding'', name source, encoding_descriptor];
                  (return_code, w') = request e message w
              in if return_code = SVR_SUCCESS
                 then (return_code,
                       source\<lparr>encoding := Some enc, encoding_options := Some options\<rparr>, w')
                 else (return_code, source, w'))))"

text \<open>\<^verbatim>\<open>SVR_Source_new\<close>: \<open>None\<close> is the \<^verbatim>\<open>NULL\<close> the function returns when the
  \<^verbatim>\<open>Source.open\<close> request fails.\<close>

definition SVR_Source_new :: "env \<Rightarrow> string \<Rightarrow> wire \<Rightarrow> SVR_Source option \<times> wire" where
  "SVR_Source_new e nm w =
     (let message = SVR_Message_new [''Source.open'', ''client'', nm];
          (return_code, w1) = request e message w
      in if return_code \<noteq> SVR_SUCCESS then (None, w1)
         else
           (let source = \<lparr>name = nm, encoding = None, encoding_options = None, encoder = None,
                          frame_properties = None, payload_buffer_size = 4 * 1024\<rparr>;
                (rc_jpeg, source2, w2) = SVR_Source_setEncoding e source ''jpeg'' w1
            in if rc_jpeg \<noteq> SVR_SUCCESS
               then (let (rc_raw, source3, w3) = SVR_Source_setEncoding e source2 ''raw'' w2
                     in (Some source3, w3))
               else (Some source2, w2)))"

text \<open>\<^verbatim>\<open>SVR_Source_destroy\<close>: the source object is freed, only the status and the wire
  remain.\<close>

definition SVR_Source_destroy :: "env \<Rightarrow> SVR_Source \<Rightarrow> wire \<Rightarrow> return_code \<times> wire" where
  "SVR_Source_destroy e source w =
     request e (SVR_Message_new [''Source.close'', name source]) w"

text \<open>The \<^verbatim>\<open>%d\<close> conversion of \<^verbatim>\<open>sprintf\<close>: a C \<^verbatim>\<open>int\<close> in decimal, with a minus
  sign when it is negative.\<close>

definition digit_char :: "nat \<Rightarrow> char" where
  "digit_char n = ''0123456789'' ! n"

fun dec_nat :: "nat \<Rightarrow> string" where
  "dec_nat n = (if n < 10 then [digit_char n] else dec_nat (n div 10) @ [digit_char (n mod 10)])"

declare dec_nat.simps [simp del]

definition printf_d :: "c_int \<Rightarrow> string" where
  "printf_d x = (if sint x < 0 then CHR ''-'' # dec_nat (nat (- sint x)) else dec_nat (nat (sint x)))"

text \<open>\<^verbatim>\<open>SVR_Arena_sprintf(alloc, "%d,%d,%d,%d", width, height, depth, channels)\<close>.\<close>

definition sprintf_properties :: "SVR_FrameProperties \<Rightarrow> string" where
  "sprintf_properties fp =
     printf_d (SVR_FrameProperties.width fp) @ '','' @
     printf_d (SVR_FrameProperties.height fp) @ '','' @
     printf_d (SVR_FrameProperties.depth fp) @ '','' @
     printf_d (channels fp)"

definition SVR_Source_setFrameProperties ::
  "env \<Rightarrow> SVR_Source \<Rightarrow> SVR_FrameProperties \<Rightarrow> wire \<Rightarrow> return_code \<times> SVR_Source \<times> wire" where
  "SVR_Source_setFrameProperties e source fp w =
     (let message = SVR_Message_new
                      [''Source.setFrameProperties'', name source, sprintf_properties fp];
          (return_code, w') = request e message w
      in if return_code = SVR_SUCCESS
         then (return_code, source\<lparr>frame_properties := Some fp\<rparr>, w')
         else (return_code, source, w'))"

text \<open>The \<^verbatim>\<open>while\<close> loop of \<^verbatim>\<open>SVR_Source_sendFrame\<close>: as long as the encoder has data,
  read at most \<open>cap\<close> bytes into the payload buffer and send the message without asking
  for a response. \<open>None\<close> is a loop that never ends.\<close>

partial_function (option) send_data ::
  "env \<Rightarrow> nat \<Rightarrow> SVR_Message \<Rightarrow> SVR_Encoder \<Rightarrow> wire \<Rightarrow> (SVR_Encoder \<times> wire) option" where
  "send_data e cap message enc w =
     (if SVR_Encoder_dataReady enc > 0
      then (let (chunk, enc') = SVR_Encoder_readData enc cap;
                (response, w') = SVR_Comm_sendMessage e (message\<lparr>payload := chunk\<rparr>) False w
            in send_data e cap message enc' w')
      else Some (enc, w))"

text \<open>The shape check of \<^verbatim>\<open>SVR_Source_sendFrame\<close>.\<close>

definition shape_differs :: "IplImage \<Rightarrow> SVR_FrameProperties \<Rightarrow> bool" where
  "shape_differs frame fp \<longleftrightarrow>
     IplImage.width frame \<noteq> SVR_FrameProperties.width fp \<or>
     IplImage.height frame \<noteq> SVR_FrameProperties.height fp \<or>
     IplImage.depth frame \<noteq> SVR_FrameProperties.depth fp \<or>
     nChannels frame \<noteq> channels fp"

text \<open>The encoder the frame goes to: the source's encoder, constructed from the encoding,
  its options and the frame properties when the source has none yet.\<close>

definition encoder_for :: "SVR_Source \<Rightarrow> SVR_Encoding \<Rightarrow> SVR_FrameProperties \<Rightarrow> SVR_Encoder" where
  "encoder_for source enc props =
     (case encoder source of
        None \<Rightarrow> SVR_Encoder_new enc (encoding_options source) props
      | Some existing \<Rightarrow> existing)"

text \<open>\<^verbatim>\<open>SVR_Source_sendFrame\<close> from the construction of the encoder on, where the encoding
  and the frame properties of the source are set. The last case is a \<^verbatim>\<open>NULL\<close> pointer
  read, which \<open>SVR_Source_sendFrame\<close> below never reaches.\<close>

definition sendFrame_encode ::
  "env \<Rightarrow> SVR_Source \<Rightarrow> IplImage \<Rightarrow> wire \<Rightarrow> (return_code \<times> SVR_Source \<times> wire) option" where
  "sendFrame_encode e source frame w =
     (case (encoding source, frame_properties source) of
        (Some enc, Some props) \<Rightarrow>
          (let enc0 = encoder_for source enc props
           in if shape_differs frame props
              then Some (SVR_INVALIDARGUMENT, source\<lparr>encoder := Some enc0\<rparr>, w)
              else (let enc1 = SVR_Encoder_encode e enc0 frame;
                        message = SVR_Message_new [''Data'', name source]
                    in case send_data e (payload_buffer_size source) message enc1 w of
                         None \<Rightarrow> None
                       | Some (enc2, w') \<Rightarrow>
                           Some (SVR_SUCCESS, source\<lparr>encoder := Some enc2\<rparr>, w')))
      | _ \<Rightarrow> None)"

text \<open>The frame properties \<^verbatim>\<open>SVR_Source_sendFrame\<close> derives from a frame.\<close>

definition derived_properties :: "IplImage \<Rightarrow> SVR_FrameProperties" where
  "derived_properties frame =
     \<lparr>SVR_FrameProperties.width = IplImage.width frame,
      SVR_FrameProperties.height = IplImage.height frame,
      SVR_FrameProperties.depth = IplImage.depth frame,
      channels = nChannels frame\<rparr>"

definition SVR_Source_sendFrame ::
  "env \<Rightarrow> SVR_Source \<Rightarrow> IplImage \<Rightarrow> wire \<Rightarrow> (return_code \<times> SVR_Source \<times> wire) option" where
  "SVR_Source_sendFrame e source frame w =
     (case encoding source of
        None \<Rightarrow> Some (SVR_INVALIDSTATE, source, w)
      | Some enc \<Rightarrow>
         (case frame_properties source of
            None \<Rightarrow>
              (let (return_code, source', w') =
                     SVR_Source_setFrameProperties e source (derived_properties frame) w
               in if return_code \<noteq> SVR_SUCCESS then Some (return_code, source', w')
                  else sendFrame_encode e source' frame w')
          | Some props \<Rightarrow> sendFrame_encode e source frame w))"

definition SVR_openServerSource :: "env \<Rightarrow> string \<Rightarrow> string \<Rightarrow> wire \<Rightarrow> return_code \<times> wire" where
  "SVR_openServerSource e nm descriptor w =
     request e (SVR_Message_new [''Source.open'', ''server'', nm, descriptor]) w"

definition SVR_closeServerSource :: "env \<Rightarrow> string \<Rightarrow> wire \<Rightarrow> return_code \<times> wire" where
  "SVR_closeServerSource e nm w =
     request e (SVR_Message_new [''Source.close'', nm]) w"

text \<open>\<^verbatim>\<open>SVR_getSourcesList\<close>: the components of the response after the first.\<close>

definition SVR_getSourcesList :: "env \<Rightarrow> wire \<Rightarrow> string list option \<times> wire" where
  "SVR_getSourcesList e w =
     (let (response, w') =
            SVR_Comm_sendMessage e (SVR_Message_new [''Source.getSourcesList'']) True w
      in (map_option (\<lambda>r. drop 1 (components r)) response, w'))"

section \<open>Notions of the specification\<close>

text \<open>The specification's reading of the drain step: a byte string cut into consecutive
  chunks of at most \<open>cap\<close> bytes.\<close>

function chunks :: "nat \<Rightarrow> 'a list \<Rightarrow> 'a list list" where
  "chunks cap xs = (if cap = 0 \<or> xs = [] then [] else take cap xs # chunks cap (drop cap xs))"
  by pat_completeness auto
termination
  by (relation "measure (\<lambda>(cap, xs). length xs)") auto

declare chunks.simps [simp del]

text \<open>The \<^verbatim>\<open>Data\<close> message that carries one chunk for a source.\<close>

definition Data_message :: "SVR_Source \<Rightarrow> byte list \<Rightarrow> SVR_Message" where
  "Data_message source chunk = \<lparr>components = [''Data'', name source], payload = chunk\<rparr>"


text \<open>Reading the frame-properties component back, as the receiving side would: split at
  the commas, read each field as a decimal integer.\<close>

fun split_on :: "char \<Rightarrow> string \<Rightarrow> string list" where
  "split_on c [] = [[]]"
| "split_on c (x # xs) =
     (if x = c then [] # split_on c xs
      else (case split_on c xs of [] \<Rightarrow> [[x]] | f # fs \<Rightarrow> (x # f) # fs))"

definition is_digit :: "char \<Rightarrow> bool" where
  "is_digit ch \<longleftrightarrow> ch \<in> set ''0123456789''"

definition read_nat :: "string \<Rightarrow> nat" where
  "read_nat s = foldl (\<lambda>acc ch. 10 * acc + (of_char ch - 48)) 0 s"

definition is_decimal :: "string \<Rightarrow> bool" where
  "is_decimal s \<longleftrightarrow>
     (case s of
        [] \<Rightarrow> False
      | ch # ds \<Rightarrow> if ch = CHR ''-'' then ds \<noteq> [] \<and> list_all is_digit ds
                   else list_all is_digit (ch # ds))"

definition read_int :: "string \<Rightarrow> int" where
  "read_int s =
     (case s of
        [] \<Rightarrow> 0
      | ch # ds \<Rightarrow> if ch = CHR ''-'' then - int (read_nat ds) else int (read_nat (ch # ds)))"

section \<open>A concrete environment\<close>

text \<open>Small instances of the collaborators, on which the theorems below are run: a parser
  that takes any non-empty string as an encoding name, a registry with \<^verbatim>\<open>jpeg\<close> and
  \<^verbatim>\<open>raw\<close>, a status reader that takes \<^verbatim>\<open>"0"\<close> for success, a codec that passes the
  pixel data through, and servers that accept or refuse every request.\<close>

definition demo_parse :: "string \<Rightarrow> Dictionary option" where
  "demo_parse s = (if s = [] then None else Some [(''%name'', s)])"

definition demo_registry :: "string option \<Rightarrow> SVR_Encoding option" where
  "demo_registry n =
     (case n of None \<Rightarrow> None
      | Some s \<Rightarrow> if s = ''jpeg'' \<or> s = ''raw'' then Some (Encoding s) else None)"

definition raw_only_registry :: "string option \<Rightarrow> SVR_Encoding option" where
  "raw_only_registry n =
     (case n of None \<Rightarrow> None
      | Some s \<Rightarrow> if s = ''raw'' then Some (Encoding s) else None)"

definition empty_registry :: "string option \<Rightarrow> SVR_Encoding option" where
  "empty_registry n = None"

definition demo_status :: "SVR_Message option \<Rightarrow> return_code" where
  "demo_status r =
     (case r of None \<Rightarrow> SVR_INTERNAL
      | Some m \<Rightarrow> if components m = [''0''] then SVR_SUCCESS else SVR_NAMEINUSE)"

definition demo_codec ::
  "SVR_Encoding \<Rightarrow> Dictionary option \<Rightarrow> SVR_FrameProperties \<Rightarrow> IplImage \<Rightarrow> byte list" where
  "demo_codec enc opts props frame = imageData frame"

definition accepting :: "wire \<Rightarrow> SVR_Message" where
  "accepting w = \<lparr>components = [''0''], payload = []\<rparr>"

definition refusing :: "wire \<Rightarrow> SVR_Message" where
  "refusing w = \<lparr>components = [''5''], payload = []\<rparr>"

definition demo_env :: "(string option \<Rightarrow> SVR_Encoding option) \<Rightarrow> (wire \<Rightarrow> SVR_Message) \<Rightarrow> env" where
  "demo_env registry srv =
     \<lparr>SVR_parseOptionString = demo_parse, SVR_Encoding_getByName = registry,
      server_response = srv, SVR_Comm_parseResponse = demo_status, codec_output = demo_codec\<rparr>"

definition demo_frame :: "c_int \<Rightarrow> c_int \<Rightarrow> byte list \<Rightarrow> IplImage" where
  "demo_frame wd ht px =
     \<lparr>nChannels = 3, IplImage.depth = 8, IplImage.width = wd, IplImage.height = ht,
      imageData = px\<rparr>"

definition qvga :: SVR_FrameProperties where
  "qvga = \<lparr>SVR_FrameProperties.width = 320, SVR_FrameProperties.height = 240,
           SVR_FrameProperties.depth = 8, channels = 3\<rparr>"

definition vga :: SVR_FrameProperties where
  "vga = \<lparr>SVR_FrameProperties.width = 640, SVR_FrameProperties.height = 480,
          SVR_FrameProperties.depth = 8, channels = 3\<rparr>"

text \<open>640x480 with three channels of signed 8-bit samples: OpenCV's \<^verbatim>\<open>IPL_DEPTH_8S\<close> is
  \<^verbatim>\<open>0x80000008\<close>, a negative \<^verbatim>\<open>int\<close>.\<close>

definition signed_depth :: SVR_FrameProperties where
  "signed_depth = \<lparr>SVR_FrameProperties.width = 640, SVR_FrameProperties.height = 480,
                   SVR_FrameProperties.depth = 0x80000008, channels = 3\<rparr>"

definition jpeg_encoder :: SVR_Encoder where
  "jpeg_encoder = SVR_Encoder_new (Encoding ''jpeg'') (Some [(''%name'', ''jpeg'')]) vga"

definition demo_source ::
  "SVR_Encoding option \<Rightarrow> SVR_Encoder option \<Rightarrow> SVR_FrameProperties option \<Rightarrow> nat \<Rightarrow> SVR_Source" where
  "demo_source enc ecd props cap =
     \<lparr>name = ''cam'', encoding = enc,
      encoding_options = map_option (\<lambda>_. [(''%name'', ''jpeg'')]) enc,
      encoder = ecd, frame_properties = props, payload_buffer_size = cap\<rparr>"

lemmas demo_defs =
  demo_env_def demo_source_def demo_frame_def vga_def demo_parse_def demo_registry_def
  raw_only_registry_def empty_registry_def demo_status_def demo_codec_def accepting_def
  refusing_def
  jpeg_encoder_def qvga_def

section \<open>The drain loop\<close>

lemma chunks_Nil [simp]: "chunks cap [] = []"
  by (simp add: chunks.simps)

lemma chunks_step:
  "0 < cap \<Longrightarrow> xs \<noteq> [] \<Longrightarrow> chunks cap xs = take cap xs # chunks cap (drop cap xs)"
  by (subst chunks.simps) simp

lemma concat_chunks: "0 < cap \<Longrightarrow> concat (chunks cap xs) = xs"
proof (induction cap xs rule: chunks.induct)
  case (1 cap xs)
  show ?case
  proof (cases "xs = []")
    case True
    then show ?thesis by simp
  next
    case False
    with 1 show ?thesis by (simp add: chunks_step)
  qed
qed

lemma chunks_bounds: "c \<in> set (chunks cap xs) \<Longrightarrow> 0 < length c \<and> length c \<le> cap"
proof (induction cap xs rule: chunks.induct)
  case (1 cap xs)
  show ?case
  proof (cases "cap = 0 \<or> xs = []")
    case True
    with 1(2) show ?thesis by (simp add: chunks.simps)
  next
    case False
    then have "chunks cap xs = take cap xs # chunks cap (drop cap xs)"
      by (simp add: chunks_step)
    with 1 False show ?thesis by auto
  qed
qed

text \<open>With a payload buffer of positive size the loop ends: it leaves the encoder empty and
  has sent the pending bytes chunk by chunk, none of the messages asking for a response.\<close>

lemma send_data_chunks:
  assumes "0 < cap"
  shows "send_data e cap message enc w =
           Some (enc\<lparr>pending := []\<rparr>,
                 w @ map (\<lambda>c. (message\<lparr>payload := c\<rparr>, False)) (chunks cap (pending enc)))"
proof (induction "length (pending enc)" arbitrary: enc w rule: less_induct)
  case less
  show ?case
  proof (cases "pending enc = []")
    case True
    then show ?thesis
      by (subst send_data.simps) (simp add: SVR_Encoder_dataReady_def)
  next
    case False
    let ?enc' = "enc\<lparr>pending := drop cap (pending enc)\<rparr>"
    let ?w' = "w @ [(message\<lparr>payload := take cap (pending enc)\<rparr>, False)]"
    have "length (pending ?enc') < length (pending enc)"
      using False assms by simp
    from less [OF this]
    have ih: "send_data e cap message ?enc' ?w' =
                Some (?enc'\<lparr>pending := []\<rparr>,
                      ?w' @ map (\<lambda>c. (message\<lparr>payload := c\<rparr>, False))
                                (chunks cap (pending ?enc')))" .
    have "send_data e cap message enc w = send_data e cap message ?enc' ?w'"
      using False
      by (subst send_data.simps)
         (simp add: SVR_Encoder_dataReady_def SVR_Encoder_readData_def SVR_Comm_sendMessage_def)
    with ih False assms show ?thesis
      by (simp add: chunks_step)
  qed
qed

text \<open>With a payload buffer of size zero and data pending, the loop reads nothing and never
  ends.\<close>

lemma send_data_diverges:
  assumes "send_data e cap message enc w = Some r"
  shows "\<not> (cap = 0 \<and> pending enc \<noteq> [])"
proof (rule send_data.raw_induct
         [where P = "\<lambda>e cap message enc w r. \<not> (cap = 0 \<and> pending enc \<noteq> [])", OF _ assms],
       goal_cases)
  case (1 sd e cap message enc w r)
  show ?case
  proof
    assume c: "cap = 0 \<and> pending enc \<noteq> []"
    with 1(2)
    have "sd e cap message (enc\<lparr>pending := pending enc\<rparr>)
            (w @ [(message\<lparr>payload := []\<rparr>, False)]) = Some r"
      by (simp add: SVR_Encoder_dataReady_def SVR_Encoder_readData_def SVR_Comm_sendMessage_def)
    from 1(1) [OF this] c show False by simp
  qed
qed

section \<open>Sending a frame\<close>

text \<open>C9. A source whose encoding is unset: \<open>SVR_Source_sendFrame\<close> returns
  \<open>SVR_INVALIDSTATE\<close> at once. The source comes back as it was (no frame properties
  derived or installed, no encoder constructed) and so does the wire (no message sent).\<close>

theorem sendFrame_without_encoding:
  "encoding source = None \<Longrightarrow>
   SVR_Source_sendFrame e source frame w = Some (SVR_INVALIDSTATE, source, w)"
  by (simp add: SVR_Source_sendFrame_def)

theorem sendFrame_without_encoding_witness:
  "encoding (demo_source None None None 4096) = None \<and>
   SVR_Source_sendFrame (demo_env demo_registry accepting) (demo_source None None None 4096)
       (demo_frame 640 480 [1, 2, 3]) [] =
     Some (SVR_INVALIDSTATE, demo_source None None None 4096, [])"
  using sendFrame_without_encoding [of "demo_source None None None 4096"
      "demo_env demo_registry accepting" "demo_frame 640 480 [1, 2, 3]" "[]"]
  by (simp add: demo_source_def)

lemma sendFrame_encode_mismatch:
  assumes "encoding source = Some enc" and "frame_properties source = Some props"
    and "shape_differs frame props"
  shows "sendFrame_encode e source frame w =
           Some (SVR_INVALIDARGUMENT, source\<lparr>encoder := Some (encoder_for source enc props)\<rparr>, w)"
  using assms by (simp add: sendFrame_encode_def)

lemma sendFrame_encode_accept:
  assumes "encoding source = Some enc" and "frame_properties source = Some props"
    and "\<not> shape_differs frame props" and "0 < payload_buffer_size source"
  shows "sendFrame_encode e source frame w =
           Some (SVR_SUCCESS,
                 source\<lparr>encoder :=
                   Some ((SVR_Encoder_encode e (encoder_for source enc props) frame)\<lparr>pending := []\<rparr>)\<rparr>,
                 w @ map (\<lambda>c. (Data_message source c, False))
                       (chunks (payload_buffer_size source)
                          (pending (SVR_Encoder_encode e (encoder_for source enc props) frame))))"
  using assms
  by (simp add: sendFrame_encode_def send_data_chunks SVR_Message_new_def Data_message_def Let_def)

lemma not_shape_differs_derived [simp]: "\<not> shape_differs frame (derived_properties frame)"
  by (simp add: shape_differs_def derived_properties_def)

lemma setFrameProperties_result:
  "SVR_Source_setFrameProperties e source fp w =
     (let w' = w @ [(SVR_Message_new
                       [''Source.setFrameProperties'', name source, sprintf_properties fp], True)];
          rc = SVR_Comm_parseResponse e (Some (server_response e w'))
      in (rc, if rc = SVR_SUCCESS then source\<lparr>frame_properties := Some fp\<rparr> else source, w'))"
  by (simp add: SVR_Source_setFrameProperties_def request_def SVR_Comm_sendMessage_def Let_def)

text \<open>C1 (as amended). A source whose encoding is set and whose frame properties are
  installed, and a frame whose width, height, depth or channels differ from them:
  \<open>SVR_Source_sendFrame\<close> returns \<open>SVR_INVALIDARGUMENT\<close>. The wire is unchanged (no
  \<^verbatim>\<open>Data\<close> message, no message at all), and the encoder of the source is the one it had, or
  a new one when it had none; no frame has been pushed into it and it holds no more bytes
  than before.\<close>

theorem sendFrame_shape_mismatch:
  assumes "encoding source = Some enc" and "frame_properties source = Some props"
    and "shape_differs frame props"
  shows "\<exists>enc'. SVR_Source_sendFrame e source frame w =
                  Some (SVR_INVALIDARGUMENT, source\<lparr>encoder := Some enc'\<rparr>, w) \<and>
               enc' = encoder_for source enc props \<and>
               frames_in enc' = (case encoder source of None \<Rightarrow> 0 | Some x \<Rightarrow> frames_in x) \<and>
               pending enc' = (case encoder source of None \<Rightarrow> [] | Some x \<Rightarrow> pending x)"
  using assms
  by (simp add: SVR_Source_sendFrame_def sendFrame_encode_mismatch encoder_for_def
        SVR_Encoder_new_def split: option.splits)

theorem sendFrame_shape_mismatch_witness:
  "encoding (demo_source (Some (Encoding ''jpeg'')) None (Some vga) 4096) = Some (Encoding ''jpeg'') \<and>
   frame_properties (demo_source (Some (Encoding ''jpeg'')) None (Some vga) 4096) = Some vga \<and>
   shape_differs (demo_frame 320 240 [1, 2, 3]) vga \<and>
   SVR_Source_sendFrame (demo_env demo_registry accepting)
       (demo_source (Some (Encoding ''jpeg'')) None (Some vga) 4096)
       (demo_frame 320 240 [1, 2, 3]) [] =
     Some (SVR_INVALIDARGUMENT,
           demo_source (Some (Encoding ''jpeg'')) (Some jpeg_encoder) (Some vga) 4096, [])"
  using sendFrame_shape_mismatch [of "demo_source (Some (Encoding ''jpeg'')) None (Some vga) 4096"
      "Encoding ''jpeg''" vga "demo_frame 320 240 [1, 2, 3]" "demo_env demo_registry accepting" "[]"]
  by (simp add: demo_defs shape_differs_def encoder_for_def)

text \<open>C1 as stated, for every source with installed frame properties, fails where the
  encoding is unset: the source below has properties 640x480, the frame is 320x240, and the
  result is \<open>SVR_INVALIDSTATE\<close>.\<close>

theorem sendFrame_shape_mismatch_counterexample:
  "frame_properties (demo_source None None (Some vga) 4096) = Some vga \<and>
   shape_differs (demo_frame 320 240 [1, 2, 3]) vga \<and>
   SVR_Source_sendFrame (demo_env demo_registry accepting)
       (demo_source None None (Some vga) 4096) (demo_frame 320 240 [1, 2, 3]) [] =
     Some (SVR_INVALIDSTATE, demo_source None None (Some vga) 4096, []) \<and>
   SVR_INVALIDSTATE \<noteq> SVR_INVALIDARGUMENT"
  by (simp add: demo_defs shape_differs_def SVR_Source_sendFrame_def)


text \<open>C2 (as amended). A source whose encoding is set and whose frame properties are
  unset: \<open>SVR_Source_sendFrame\<close> derives the properties from the frame and sends the
  \<^verbatim>\<open>Source.setFrameProperties\<close> request first. If the request fails, the failure code is
  returned, the source is unchanged and nothing else is on the wire. If it succeeds, the
  frame is encoded and sent from a source that has the derived properties installed and a
  wire that already carries the request; with a payload buffer of positive size the result
  is success, with the \<^verbatim>\<open>Data\<close> messages after the request.\<close>

theorem sendFrame_derives_properties:
  fixes e source frame w
  defines "w1 \<equiv> w @ [(SVR_Message_new [''Source.setFrameProperties'', name source,
                                         sprintf_properties (derived_properties frame)], True)]"
  defines "rc \<equiv> SVR_Comm_parseResponse e (Some (server_response e w1))"
  defines "installed \<equiv> source\<lparr>frame_properties := Some (derived_properties frame)\<rparr>"
  assumes "encoding source = Some enc" and "frame_properties source = None"
  shows "(rc \<noteq> SVR_SUCCESS \<longrightarrow> SVR_Source_sendFrame e source frame w = Some (rc, source, w1)) \<and>
         (rc = SVR_SUCCESS \<longrightarrow>
            SVR_Source_sendFrame e source frame w = sendFrame_encode e installed frame w1 \<and>
            (0 < payload_buffer_size source \<longrightarrow>
               sendFrame_encode e installed frame w1 =
                 Some (SVR_SUCCESS,
                       installed\<lparr>encoder := Some ((SVR_Encoder_encode e
                           (encoder_for source enc (derived_properties frame)) frame)\<lparr>pending := []\<rparr>)\<rparr>,
                       w1 @ map (\<lambda>c. (Data_message source c, False))
                              (chunks (payload_buffer_size source)
                                 (pending (SVR_Encoder_encode e
                                    (encoder_for source enc (derived_properties frame)) frame))))))"
proof -
  have enc: "encoding installed = Some enc" and fp: "frame_properties installed = Some (derived_properties frame)"
    using assms by (simp_all add: installed_def)
  have same: "encoder_for installed enc (derived_properties frame) =
              encoder_for source enc (derived_properties frame)"
    by (simp add: installed_def encoder_for_def split: option.splits)
  have "0 < payload_buffer_size source \<Longrightarrow> ?thesis"
    using assms(4,5) sendFrame_encode_accept [OF enc fp not_shape_differs_derived, of e w1]
    by (simp add: SVR_Source_sendFrame_def setFrameProperties_result Let_def w1_def rc_def same
          Data_message_def) (simp add: installed_def)
  moreover have "\<not> 0 < payload_buffer_size source \<Longrightarrow> ?thesis"
    using assms(4,5)
    by (simp add: SVR_Source_sendFrame_def setFrameProperties_result Let_def w1_def rc_def
          installed_def)
  ultimately show ?thesis by blast
qed


lemma sprintf_vga: "sprintf_properties vga = ''640,480,8,3''"
  by (simp add: sprintf_properties_def vga_def printf_d_def dec_nat.simps digit_char_def)

lemma derived_demo_frame: "derived_properties (demo_frame 640 480 px) = vga"
  by (simp add: derived_properties_def demo_frame_def vga_def)

theorem sendFrame_derives_properties_witness:
  "encoding (demo_source (Some (Encoding ''jpeg'')) None None 2) = Some (Encoding ''jpeg'') \<and>
   frame_properties (demo_source (Some (Encoding ''jpeg'')) None None 2) = None \<and>
   SVR_Source_sendFrame (demo_env demo_registry accepting)
       (demo_source (Some (Encoding ''jpeg'')) None None 2) (demo_frame 640 480 [1, 2, 3]) [] =
     Some (SVR_SUCCESS,
           demo_source (Some (Encoding ''jpeg''))
             (Some (jpeg_encoder\<lparr>frames_in := 1\<rparr>)) (Some vga) 2,
           [(\<lparr>components = [''Source.setFrameProperties'', ''cam'', ''640,480,8,3''],
              payload = []\<rparr>, True),
            (\<lparr>components = [''Data'', ''cam''], payload = [1, 2]\<rparr>, False),
            (\<lparr>components = [''Data'', ''cam''], payload = [3]\<rparr>, False)]) \<and>
   SVR_Source_sendFrame (demo_env demo_registry refusing)
       (demo_source (Some (Encoding ''jpeg'')) None None 2) (demo_frame 640 480 [1, 2, 3]) [] =
     Some (SVR_NAMEINUSE, demo_source (Some (Encoding ''jpeg'')) None None 2,
           [(\<lparr>components = [''Source.setFrameProperties'', ''cam'', ''640,480,8,3''],
              payload = []\<rparr>, True)])"
  using sendFrame_derives_properties [where source = "demo_source (Some (Encoding ''jpeg'')) None None 2"
          and enc = "Encoding ''jpeg''" and e = "demo_env demo_registry accepting"
          and frame = "demo_frame 640 480 [1, 2, 3]" and w = "[]"]
        sendFrame_derives_properties [where source = "demo_source (Some (Encoding ''jpeg'')) None None 2"
          and enc = "Encoding ''jpeg''" and e = "demo_env demo_registry refusing"
          and frame = "demo_frame 640 480 [1, 2, 3]" and w = "[]"]
  by (simp add: derived_demo_frame sprintf_vga)
     (simp add: demo_defs SVR_Message_new_def Data_message_def encoder_for_def
        SVR_Encoder_new_def SVR_Encoder_encode_def chunks.simps)

text \<open>C2 as stated, for every source whose frame properties are unset, fails where the
  encoding is unset too: nothing is derived, installed or sent.\<close>

theorem sendFrame_derives_properties_counterexample:
  "frame_properties (demo_source None None None 4096) = None \<and>
   SVR_Source_sendFrame (demo_env demo_registry accepting)
       (demo_source None None None 4096) (demo_frame 640 480 [1, 2, 3]) [] =
     Some (SVR_INVALIDSTATE, demo_source None None None 4096, [])"
  by (simp add: demo_defs SVR_Source_sendFrame_def)


lemma sendFrame_with_properties:
  "encoding source = Some enc \<Longrightarrow> frame_properties source = Some props \<Longrightarrow>
   SVR_Source_sendFrame e source frame w = sendFrame_encode e source frame w"
  by (simp add: SVR_Source_sendFrame_def)

lemma sendFrame_without_properties:
  "encoding source = Some enc \<Longrightarrow> frame_properties source = None \<Longrightarrow>
   SVR_Source_sendFrame e source frame w =
     (let w1 = w @ [(SVR_Message_new [''Source.setFrameProperties'', name source,
                                      sprintf_properties (derived_properties frame)], True)];
          rc = SVR_Comm_parseResponse e (Some (server_response e w1))
      in if rc \<noteq> SVR_SUCCESS then Some (rc, source, w1)
         else sendFrame_encode e (source\<lparr>frame_properties := Some (derived_properties frame)\<rparr>)
                frame w1)"
  by (simp add: SVR_Source_sendFrame_def setFrameProperties_result Let_def)

lemma encoder_for_properties_update [simp]:
  "encoder_for (source\<lparr>frame_properties := fp\<rparr>) enc props = encoder_for source enc props"
  by (simp add: encoder_for_def split: option.splits)

lemma Data_message_properties_update [simp]:
  "Data_message (source\<lparr>frame_properties := fp\<rparr>) c = Data_message source c"
  by (simp add: Data_message_def)

lemma sendFrame_returns:
  assumes "0 < payload_buffer_size source"
  shows "SVR_Source_sendFrame e source frame w \<noteq> None"
proof (cases "encoding source")
  case None
  then show ?thesis by (simp add: SVR_Source_sendFrame_def)
next
  case (Some enc)
  show ?thesis
  proof (cases "frame_properties source")
    case None
    with Some assms show ?thesis
      by (simp add: sendFrame_without_properties Let_def sendFrame_encode_accept)
  next
    case (Some props)
    with \<open>encoding source = Some enc\<close> assms show ?thesis
      by (cases "shape_differs frame props")
         (simp_all add: sendFrame_with_properties sendFrame_encode_accept
            sendFrame_encode_mismatch)
  qed
qed

lemma sendFrame_success:
  assumes "0 < payload_buffer_size source"
    and "SVR_Source_sendFrame e source frame w = Some (SVR_SUCCESS, source', w')"
  shows "\<exists>enc props.
           encoding source = Some enc \<and> frame_properties source' = Some props \<and>
           encoder source' =
             Some ((SVR_Encoder_encode e (encoder_for source enc props) frame)\<lparr>pending := []\<rparr>) \<and>
           w' = w @ (if frame_properties source = None
                     then [(SVR_Message_new [''Source.setFrameProperties'', name source,
                                             sprintf_properties props], True)]
                     else []) @
                map (\<lambda>c. (Data_message source c, False))
                  (chunks (payload_buffer_size source)
                     (pending (SVR_Encoder_encode e (encoder_for source enc props) frame)))"
proof (cases "encoding source")
  case None
  with assms(2) show ?thesis by (simp add: SVR_Source_sendFrame_def)
next
  case (Some enc)
  show ?thesis
  proof (cases "frame_properties source")
    case None
    with Some assms show ?thesis
      by (auto simp: sendFrame_without_properties Let_def sendFrame_encode_accept
               split: if_splits)
  next
    case (Some props)
    with \<open>encoding source = Some enc\<close> assms show ?thesis
      by (cases "shape_differs frame props")
         (auto simp: sendFrame_with_properties sendFrame_encode_accept
            sendFrame_encode_mismatch)
  qed
qed


lemma setEncoding_result:
  "SVR_Source_setEncoding e source d w =
     (case SVR_parseOptionString e d of
        None \<Rightarrow> (SVR_PARSEERROR, source, w)
      | Some opts \<Rightarrow>
         (case SVR_Encoding_getByName e (Dictionary_get opts ''%name'') of
            None \<Rightarrow> (SVR_NOSUCHENCODING, source, w)
          | Some enc \<Rightarrow>
             (let w' = w @ [(SVR_Message_new [''Source.setEncoding'', name source, d], True)];
                  rc = SVR_Comm_parseResponse e (Some (server_response e w'))
              in (rc,
                  if rc = SVR_SUCCESS
                  then source\<lparr>encoding := Some enc, encoding_options := Some opts\<rparr>
                  else source,
                  w'))))"
  by (simp add: SVR_Source_setEncoding_def request_def SVR_Comm_sendMessage_def Let_def
           split: option.splits)

lemma setEncoding_success:
  assumes "SVR_Source_setEncoding e source d w = (SVR_SUCCESS, source', w')"
  shows "\<exists>opts enc. SVR_parseOptionString e d = Some opts \<and>
           SVR_Encoding_getByName e (Dictionary_get opts ''%name'') = Some enc \<and>
           source' = source\<lparr>encoding := Some enc, encoding_options := Some opts\<rparr>"
  using assms
  by (auto simp: setEncoding_result Let_def split: option.splits if_splits)

lemma setEncoding_failure:
  assumes "SVR_Source_setEncoding e source d w = (rc, source', w')" and "rc \<noteq> SVR_SUCCESS"
  shows "source' = source"
  using assms
  by (auto simp: setEncoding_result Let_def split: option.splits if_splits)

lemma setEncoding_keeps:
  assumes "SVR_Source_setEncoding e x d v = (rc, x', v')"
  shows "name x' = name x \<and> encoder x' = encoder x \<and>
         frame_properties x' = frame_properties x \<and>
         payload_buffer_size x' = payload_buffer_size x"
  using assms
  by (auto simp: setEncoding_result Let_def split: option.splits if_splits)

lemma Source_new_result:
  "SVR_Source_new e nm w =
     (let w1 = w @ [(SVR_Message_new [''Source.open'', ''client'', nm], True)];
          rc = SVR_Comm_parseResponse e (Some (server_response e w1));
          fresh = \<lparr>name = nm, encoding = None, encoding_options = None, encoder = None,
                   frame_properties = None, payload_buffer_size = 4096\<rparr>
      in if rc \<noteq> SVR_SUCCESS then (None, w1)
         else if fst (SVR_Source_setEncoding e fresh ''jpeg'' w1) = SVR_SUCCESS
              then (Some (fst (snd (SVR_Source_setEncoding e fresh ''jpeg'' w1))),
                    snd (snd (SVR_Source_setEncoding e fresh ''jpeg'' w1)))
              else (Some (fst (snd (SVR_Source_setEncoding e fresh ''raw''
                                      (snd (snd (SVR_Source_setEncoding e fresh ''jpeg'' w1)))))),
                    snd (snd (SVR_Source_setEncoding e fresh ''raw''
                                (snd (snd (SVR_Source_setEncoding e fresh ''jpeg'' w1)))))))"
proof -
  have fail: "fst (snd (SVR_Source_setEncoding e x d v)) = x"
    if "fst (SVR_Source_setEncoding e x d v) \<noteq> SVR_SUCCESS" for x d v
    using that setEncoding_failure [of e x d v] by (cases "SVR_Source_setEncoding e x d v") auto
  show ?thesis
    using fail
    by (auto simp: SVR_Source_new_def request_def SVR_Comm_sendMessage_def Let_def
             split: prod.splits)
       (metis fst_conv snd_conv)+
qed

lemma Source_new_buffer:
  assumes "SVR_Source_new e nm w = (Some s, w')"
  shows "payload_buffer_size s = 4096"
proof -
  have keep: "payload_buffer_size (fst (snd (SVR_Source_setEncoding e x d v))) =
              payload_buffer_size x" for x d v
    using setEncoding_keeps [of e x d v] by (cases "SVR_Source_setEncoding e x d v") auto
  from assms show ?thesis
    by (auto simp: Source_new_result Let_def keep split: if_splits)
qed

text \<open>C5. A source with a payload buffer of positive size: \<open>SVR_Source_sendFrame\<close> returns,
  and when it accepts the frame (returns \<open>SVR_SUCCESS\<close>) the wire has grown by the
  \<^verbatim>\<open>Source.setFrameProperties\<close> request (only when the properties were unset) followed by
  one \<^verbatim>\<open>Data\<close> message per chunk. The chunks are what the encoder held after the push
  (its pending bytes and the codec's output for the frame), in order; each has at least one
  and at most \<open>payload_buffer_size\<close> bytes; each message has the components
  \<^verbatim>\<open>["Data", name]\<close> and is sent without asking for a response; the encoder is left with no
  data ready. A message sent that way gets no response, and a source made by
  \<open>SVR_Source_new\<close> has a payload buffer of 4096 bytes.\<close>

theorem sendFrame_drains_in_chunks:
  assumes "0 < payload_buffer_size source"
  shows "SVR_Source_sendFrame e source frame w \<noteq> None \<and>
         (\<forall>source' w'.
            SVR_Source_sendFrame e source frame w = Some (SVR_SUCCESS, source', w') \<longrightarrow>
            (\<exists>enc props cs.
               encoding source = Some enc \<and> frame_properties source' = Some props \<and>
               cs = chunks (payload_buffer_size source)
                      (pending (SVR_Encoder_encode e (encoder_for source enc props) frame)) \<and>
               concat cs = pending (encoder_for source enc props) @
                           codec_output e (enc_encoding (encoder_for source enc props))
                             (enc_options (encoder_for source enc props))
                             (enc_properties (encoder_for source enc props)) frame \<and>
               (\<forall>c \<in> set cs. 0 < length c \<and> length c \<le> payload_buffer_size source) \<and>
               w' = w @ (if frame_properties source = None
                         then [(SVR_Message_new [''Source.setFrameProperties'', name source,
                                                 sprintf_properties props], True)]
                         else []) @
                    map (\<lambda>c. (\<lparr>components = [''Data'', name source], payload = c\<rparr>, False)) cs \<and>
               (\<exists>enc'. encoder source' = Some enc' \<and> SVR_Encoder_dataReady enc' = 0))) \<and>
         (\<forall>m w0. fst (SVR_Comm_sendMessage e m False w0) = None) \<and>
         (\<forall>nm w0 s w1. SVR_Source_new e nm w0 = (Some s, w1) \<longrightarrow> payload_buffer_size s = 4096)"
proof (intro conjI allI impI)
  show "SVR_Source_sendFrame e source frame w \<noteq> None"
    by (rule sendFrame_returns [OF assms])
next
  fix source' w'
  assume ok: "SVR_Source_sendFrame e source frame w = Some (SVR_SUCCESS, source', w')"
  from sendFrame_success [OF assms ok] obtain enc props where
    enc: "encoding source = Some enc" and fp: "frame_properties source' = Some props" and
    ecd: "encoder source' =
            Some ((SVR_Encoder_encode e (encoder_for source enc props) frame)\<lparr>pending := []\<rparr>)" and
    w': "w' = w @ (if frame_properties source = None
                   then [(SVR_Message_new [''Source.setFrameProperties'', name source,
                                           sprintf_properties props], True)]
                   else []) @
              map (\<lambda>c. (Data_message source c, False))
                (chunks (payload_buffer_size source)
                   (pending (SVR_Encoder_encode e (encoder_for source enc props) frame)))"
    by blast
  let ?cs = "chunks (payload_buffer_size source)
               (pending (SVR_Encoder_encode e (encoder_for source enc props) frame))"
  have "concat ?cs = pending (SVR_Encoder_encode e (encoder_for source enc props) frame)"
    by (rule concat_chunks [OF assms])
  then have cat: "concat ?cs = pending (encoder_for source enc props) @
                           codec_output e (enc_encoding (encoder_for source enc props))
                             (enc_options (encoder_for source enc props))
                             (enc_properties (encoder_for source enc props)) frame"
    by (simp add: SVR_Encoder_encode_def)
  have bnd: "\<forall>c \<in> set ?cs. 0 < length c \<and> length c \<le> payload_buffer_size source"
    using chunks_bounds by blast
  have rdy: "\<exists>enc'. encoder source' = Some enc' \<and> SVR_Encoder_dataReady enc' = 0"
    using ecd by (simp add: SVR_Encoder_dataReady_def)
  have dm: "(\<lambda>c. (Data_message source c, False)) =
            (\<lambda>c. (\<lparr>components = [''Data'', name source], payload = c\<rparr>, False))"
    by (simp add: Data_message_def)
  show "\<exists>enc props cs.
               encoding source = Some enc \<and> frame_properties source' = Some props \<and>
               cs = chunks (payload_buffer_size source)
                      (pending (SVR_Encoder_encode e (encoder_for source enc props) frame)) \<and>
               concat cs = pending (encoder_for source enc props) @
                           codec_output e (enc_encoding (encoder_for source enc props))
                             (enc_options (encoder_for source enc props))
                             (enc_properties (encoder_for source enc props)) frame \<and>
               (\<forall>c \<in> set cs. 0 < length c \<and> length c \<le> payload_buffer_size source) \<and>
               w' = w @ (if frame_properties source = None
                         then [(SVR_Message_new [''Source.setFrameProperties'', name source,
                                                 sprintf_properties props], True)]
                         else []) @
                    map (\<lambda>c. (\<lparr>components = [''Data'', name source], payload = c\<rparr>, False)) cs \<and>
               (\<exists>enc'. encoder source' = Some enc' \<and> SVR_Encoder_dataReady enc' = 0)"
    using enc fp cat bnd w' rdy unfolding dm by blast
next
  fix m w0
  show "fst (SVR_Comm_sendMessage e m False w0) = None"
    by (simp add: SVR_Comm_sendMessage_def)
next
  fix nm w0 s w1
  assume "SVR_Source_new e nm w0 = (Some s, w1)"
  then show "payload_buffer_size s = 4096" by (rule Source_new_buffer)
qed


theorem sendFrame_drains_in_chunks_witness:
  "0 < payload_buffer_size (demo_source (Some (Encoding ''jpeg'')) None (Some vga) 2) \<and>
   SVR_Source_sendFrame (demo_env demo_registry accepting)
       (demo_source (Some (Encoding ''jpeg'')) None (Some vga) 2)
       (demo_frame 640 480 [1, 2, 3, 4, 5]) [] =
     Some (SVR_SUCCESS,
           demo_source (Some (Encoding ''jpeg''))
             (Some (jpeg_encoder\<lparr>frames_in := 1\<rparr>)) (Some vga) 2,
           [(\<lparr>components = [''Data'', ''cam''], payload = [1, 2]\<rparr>, False),
            (\<lparr>components = [''Data'', ''cam''], payload = [3, 4]\<rparr>, False),
            (\<lparr>components = [''Data'', ''cam''], payload = [5]\<rparr>, False)]) \<and>
   chunks 2 [1, 2, 3, 4, 5 :: byte] = [[1, 2], [3, 4], [5]] \<and>
   SVR_Source_sendFrame (demo_env demo_registry accepting)
       (demo_source (Some (Encoding ''jpeg'')) None (Some vga) 2)
       (demo_frame 640 480 [1, 2, 3, 4, 5]) [] \<noteq> None"
  using sendFrame_drains_in_chunks
          [of "demo_source (Some (Encoding ''jpeg'')) None (Some vga) 2"
              "demo_env demo_registry accepting" "demo_frame 640 480 [1, 2, 3, 4, 5]" "[]"]
        sendFrame_encode_accept
          [of "demo_source (Some (Encoding ''jpeg'')) None (Some vga) 2" "Encoding ''jpeg''" vga
              "demo_frame 640 480 [1, 2, 3, 4, 5]" "demo_env demo_registry accepting" "[]"]
  by (simp add: SVR_Source_sendFrame_def demo_source_def)
     (simp add: demo_defs shape_differs_def Data_message_def encoder_for_def
        SVR_Encoder_new_def SVR_Encoder_encode_def chunks.simps)

section \<open>Setting the encoding, opening a source\<close>

text \<open>C3. \<open>SVR_Source_setEncoding\<close> returns \<open>SVR_PARSEERROR\<close> when the option string does
  not parse and \<open>SVR_NOSUCHENCODING\<close> when the encoding named by the \<^verbatim>\<open>%name\<close> key is
  not registered, in both cases with the source and the wire untouched. Whenever it returns
  \<open>SVR_SUCCESS\<close>, the encoding and the encoding options of the source are the encoding
  found and the options parsed; whenever it returns anything else, the source is as it
  was.\<close>

theorem setEncoding_outcomes:
  "(SVR_parseOptionString e d = None \<longrightarrow>
      SVR_Source_setEncoding e source d w = (SVR_PARSEERROR, source, w)) \<and>
   (\<forall>opts. SVR_parseOptionString e d = Some opts \<and>
           SVR_Encoding_getByName e (Dictionary_get opts ''%name'') = None \<longrightarrow>
      SVR_Source_setEncoding e source d w = (SVR_NOSUCHENCODING, source, w)) \<and>
   (\<forall>rc source' w'.
      SVR_Source_setEncoding e source d w = (rc, source', w') \<longrightarrow>
      (if rc = SVR_SUCCESS
       then \<exists>opts enc.
              SVR_parseOptionString e d = Some opts \<and>
              SVR_Encoding_getByName e (Dictionary_get opts ''%name'') = Some enc \<and>
              source' = source\<lparr>encoding := Some enc, encoding_options := Some opts\<rparr>
       else source' = source \<and> encoding source' = encoding source \<and>
            encoding_options source' = encoding_options source))"
proof (intro conjI allI impI)
  assume "SVR_parseOptionString e d = None"
  then show "SVR_Source_setEncoding e source d w = (SVR_PARSEERROR, source, w)"
    by (simp add: setEncoding_result)
next
  fix opts
  assume "SVR_parseOptionString e d = Some opts \<and>
          SVR_Encoding_getByName e (Dictionary_get opts ''%name'') = None"
  then show "SVR_Source_setEncoding e source d w = (SVR_NOSUCHENCODING, source, w)"
    by (simp add: setEncoding_result)
next
  fix rc source' w'
  assume r: "SVR_Source_setEncoding e source d w = (rc, source', w')"
  show "if rc = SVR_SUCCESS
       then \<exists>opts enc.
              SVR_parseOptionString e d = Some opts \<and>
              SVR_Encoding_getByName e (Dictionary_get opts ''%name'') = Some enc \<and>
              source' = source\<lparr>encoding := Some enc, encoding_options := Some opts\<rparr>
       else source' = source \<and> encoding source' = encoding source \<and>
            encoding_options source' = encoding_options source"
  proof (cases "rc = SVR_SUCCESS")
    case True
    with r setEncoding_success [of e source d w source' w'] show ?thesis by simp
  next
    case False
    with r setEncoding_failure [of e source d w rc source' w'] show ?thesis by simp
  qed
qed

theorem setEncoding_outcomes_witness:
  "SVR_Source_setEncoding (demo_env demo_registry accepting)
       (demo_source None None None 4096) [] [] =
     (SVR_PARSEERROR, demo_source None None None 4096, []) \<and>
   SVR_Source_setEncoding (demo_env demo_registry accepting)
       (demo_source None None None 4096) ''h264'' [] =
     (SVR_NOSUCHENCODING, demo_source None None None 4096, []) \<and>
   SVR_Source_setEncoding (demo_env demo_registry accepting)
       (demo_source None None None 4096) ''raw'' [] =
     (SVR_SUCCESS,
      (demo_source None None None 4096)
        \<lparr>encoding := Some (Encoding ''raw''), encoding_options := Some [(''%name'', ''raw'')]\<rparr>,
      [(\<lparr>components = [''Source.setEncoding'', ''cam'', ''raw''], payload = []\<rparr>, True)]) \<and>
   SVR_Source_setEncoding (demo_env demo_registry refusing)
       (demo_source None None None 4096) ''raw'' [] =
     (SVR_NAMEINUSE, demo_source None None None 4096,
      [(\<lparr>components = [''Source.setEncoding'', ''cam'', ''raw''], payload = []\<rparr>, True)])"
proof -
  let ?e = "demo_env demo_registry accepting" and ?s = "demo_source None None None 4096"
  have "SVR_parseOptionString ?e [] = None"
    by (simp add: demo_env_def demo_parse_def)
  with setEncoding_outcomes [of ?e "[]" ?s "[]"]
  have c1: "SVR_Source_setEncoding ?e ?s [] [] = (SVR_PARSEERROR, ?s, [])"
    by blast
  have "SVR_parseOptionString ?e ''h264'' = Some [(''%name'', ''h264'')] \<and>
        SVR_Encoding_getByName ?e (Dictionary_get [(''%name'', ''h264'')] ''%name'') = None"
    by (simp add: demo_env_def demo_parse_def demo_registry_def Dictionary_get_def)
  with setEncoding_outcomes [of ?e "''h264''" ?s "[]"]
  have c2: "SVR_Source_setEncoding ?e ?s ''h264'' [] = (SVR_NOSUCHENCODING, ?s, [])"
    by blast
  have c3: "SVR_Source_setEncoding ?e ?s ''raw'' [] =
     (SVR_SUCCESS,
      ?s\<lparr>encoding := Some (Encoding ''raw''), encoding_options := Some [(''%name'', ''raw'')]\<rparr>,
      [(\<lparr>components = [''Source.setEncoding'', ''cam'', ''raw''], payload = []\<rparr>, True)])"
    by (simp add: demo_defs setEncoding_result Dictionary_get_def SVR_Message_new_def)
  have c4: "SVR_Source_setEncoding (demo_env demo_registry refusing) ?s ''raw'' [] =
     (SVR_NAMEINUSE, ?s,
      [(\<lparr>components = [''Source.setEncoding'', ''cam'', ''raw''], payload = []\<rparr>, True)])"
    by (simp add: demo_defs setEncoding_result Dictionary_get_def SVR_Message_new_def)
  from c1 c2 c3 c4 show ?thesis by blast
qed

text \<open>C10 (as amended). \<open>SVR_Source_new\<close> returns no source when the \<^verbatim>\<open>Source.open\<close> request does not
  return success. On success the new source has the given name, no encoder, no frame
  properties and a buffer of 4096 bytes; its encoding is the one set by
  \<^verbatim>\<open>setEncoding("jpeg")\<close> when that succeeds, otherwise the one set by
  \<^verbatim>\<open>setEncoding("raw")\<close> when that succeeds, and unset when both fail.\<close>

theorem Source_new_outcomes:
  fixes e nm w
  defines "w1 \<equiv> w @ [(SVR_Message_new [''Source.open'', ''client'', nm], True)]"
  defines "rc \<equiv> SVR_Comm_parseResponse e (Some (server_response e w1))"
  defines "fresh \<equiv> \<lparr>name = nm, encoding = None, encoding_options = None, encoder = None,
                     frame_properties = None, payload_buffer_size = 4096\<rparr>"
  defines "jpeg \<equiv> SVR_Source_setEncoding e fresh ''jpeg'' w1"
  defines "raw \<equiv> SVR_Source_setEncoding e fresh ''raw'' (snd (snd jpeg))"
  shows "(rc \<noteq> SVR_SUCCESS \<longrightarrow> SVR_Source_new e nm w = (None, w1)) \<and>
         (rc = SVR_SUCCESS \<longrightarrow>
            (\<exists>source w'.
               SVR_Source_new e nm w = (Some source, w') \<and>
               name source = nm \<and> encoder source = None \<and> frame_properties source = None \<and>
               payload_buffer_size source = 4096 \<and>
               (if fst jpeg = SVR_SUCCESS
                then (source, w') = snd jpeg \<and>
                     (\<exists>opts enc.
                        SVR_parseOptionString e ''jpeg'' = Some opts \<and>
                        SVR_Encoding_getByName e (Dictionary_get opts ''%name'') = Some enc \<and>
                        encoding source = Some enc \<and> encoding_options source = Some opts)
                else (source, w') = snd raw \<and>
                     (if fst raw = SVR_SUCCESS
                      then \<exists>opts enc.
                             SVR_parseOptionString e ''raw'' = Some opts \<and>
                             SVR_Encoding_getByName e (Dictionary_get opts ''%name'') = Some enc \<and>
                             encoding source = Some enc \<and> encoding_options source = Some opts
                      else encoding source = None \<and> encoding_options source = None))))"
proof -
  have fresh: "name fresh = nm" "encoder fresh = None" "frame_properties fresh = None"
    "payload_buffer_size fresh = 4096" "encoding fresh = None" "encoding_options fresh = None"
    by (simp_all add: fresh_def)
  have new: "SVR_Source_new e nm w =
               (if rc \<noteq> SVR_SUCCESS then (None, w1)
                else if fst jpeg = SVR_SUCCESS then (Some (fst (snd jpeg)), snd (snd jpeg))
                else (Some (fst (snd raw)), snd (snd raw)))"
    by (simp add: Source_new_result Let_def w1_def rc_def fresh_def jpeg_def raw_def)
  have keep: "name (fst (snd (SVR_Source_setEncoding e fresh d v))) = nm \<and>
              encoder (fst (snd (SVR_Source_setEncoding e fresh d v))) = None \<and>
              frame_properties (fst (snd (SVR_Source_setEncoding e fresh d v))) = None \<and>
              payload_buffer_size (fst (snd (SVR_Source_setEncoding e fresh d v))) = 4096"
    for d v
    using setEncoding_keeps [of e fresh d v "fst (SVR_Source_setEncoding e fresh d v)"
            "fst (snd (SVR_Source_setEncoding e fresh d v))"
            "snd (snd (SVR_Source_setEncoding e fresh d v))"] fresh
    by simp
  have ok: "\<exists>opts enc. SVR_parseOptionString e d = Some opts \<and>
              SVR_Encoding_getByName e (Dictionary_get opts ''%name'') = Some enc \<and>
              encoding (fst (snd (SVR_Source_setEncoding e fresh d v))) = Some enc \<and>
              encoding_options (fst (snd (SVR_Source_setEncoding e fresh d v))) = Some opts"
    if "fst (SVR_Source_setEncoding e fresh d v) = SVR_SUCCESS" for d v
  proof -
    from that have "SVR_Source_setEncoding e fresh d v =
        (SVR_SUCCESS, fst (snd (SVR_Source_setEncoding e fresh d v)),
         snd (snd (SVR_Source_setEncoding e fresh d v)))"
      by (metis prod.collapse)
    from setEncoding_success [OF this] obtain opts enc where
      "SVR_parseOptionString e d = Some opts"
      "SVR_Encoding_getByName e (Dictionary_get opts ''%name'') = Some enc"
      "fst (snd (SVR_Source_setEncoding e fresh d v)) =
         fresh\<lparr>encoding := Some enc, encoding_options := Some opts\<rparr>"
      by blast
    then show ?thesis by simp
  qed
  have bad: "encoding (fst (snd (SVR_Source_setEncoding e fresh d v))) = None \<and>
             encoding_options (fst (snd (SVR_Source_setEncoding e fresh d v))) = None"
    if "fst (SVR_Source_setEncoding e fresh d v) \<noteq> SVR_SUCCESS" for d v
    using setEncoding_failure [of e fresh d v "fst (SVR_Source_setEncoding e fresh d v)"
            "fst (snd (SVR_Source_setEncoding e fresh d v))"
            "snd (snd (SVR_Source_setEncoding e fresh d v))"] that fresh
    by simp
  show ?thesis
  proof (cases "rc = SVR_SUCCESS")
    case False
    then show ?thesis by (simp add: new)
  next
    case True
    show ?thesis
    proof (cases "fst jpeg = SVR_SUCCESS")
      case j: True
      with True keep [of "''jpeg''" w1] ok [of "''jpeg''" w1] show ?thesis
        by (simp add: new jpeg_def)
    next
      case j: False
      show ?thesis
      proof (cases "fst raw = SVR_SUCCESS")
        case r: True
        with True j keep [of "''raw''" "snd (snd jpeg)"] ok [of "''raw''" "snd (snd jpeg)"]
        show ?thesis
          by (simp add: new raw_def)
      next
        case r: False
        with True j keep [of "''raw''" "snd (snd jpeg)"] bad [of "''raw''" "snd (snd jpeg)"]
        show ?thesis
          by (simp add: new raw_def)
      qed
    qed
  qed
qed


theorem Source_new_outcomes_witness:
  "SVR_Source_new (demo_env demo_registry refusing) ''cam'' [] =
     (None, [(\<lparr>components = [''Source.open'', ''client'', ''cam''], payload = []\<rparr>, True)]) \<and>
   SVR_Source_new (demo_env demo_registry accepting) ''cam'' [] =
     (Some (demo_source (Some (Encoding ''jpeg'')) None None 4096),
      [(\<lparr>components = [''Source.open'', ''client'', ''cam''], payload = []\<rparr>, True),
       (\<lparr>components = [''Source.setEncoding'', ''cam'', ''jpeg''], payload = []\<rparr>, True)]) \<and>
   SVR_Source_new (demo_env raw_only_registry accepting) ''cam'' [] =
     (Some ((demo_source None None None 4096)
              \<lparr>encoding := Some (Encoding ''raw''),
               encoding_options := Some [(''%name'', ''raw'')]\<rparr>),
      [(\<lparr>components = [''Source.open'', ''client'', ''cam''], payload = []\<rparr>, True),
       (\<lparr>components = [''Source.setEncoding'', ''cam'', ''raw''], payload = []\<rparr>, True)])"
proof -
  have "SVR_Comm_parseResponse (demo_env demo_registry refusing)
          (Some (server_response (demo_env demo_registry refusing)
             ([] @ [(SVR_Message_new [''Source.open'', ''client'', ''cam''], True)]))) \<noteq>
        SVR_SUCCESS"
    by (simp add: demo_defs)
  with Source_new_outcomes [of "demo_env demo_registry refusing" "[]" "''cam''"]
  have c1: "SVR_Source_new (demo_env demo_registry refusing) ''cam'' [] =
     (None, [(\<lparr>components = [''Source.open'', ''client'', ''cam''], payload = []\<rparr>, True)])"
    by (simp add: SVR_Message_new_def)
  have c2: "SVR_Source_new (demo_env demo_registry accepting) ''cam'' [] =
     (Some (demo_source (Some (Encoding ''jpeg'')) None None 4096),
      [(\<lparr>components = [''Source.open'', ''client'', ''cam''], payload = []\<rparr>, True),
       (\<lparr>components = [''Source.setEncoding'', ''cam'', ''jpeg''], payload = []\<rparr>, True)])"
    by (simp add: Source_new_result setEncoding_result Let_def demo_defs Dictionary_get_def
          SVR_Message_new_def)
  have c3: "SVR_Source_new (demo_env raw_only_registry accepting) ''cam'' [] =
     (Some ((demo_source None None None 4096)
              \<lparr>encoding := Some (Encoding ''raw''),
               encoding_options := Some [(''%name'', ''raw'')]\<rparr>),
      [(\<lparr>components = [''Source.open'', ''client'', ''cam''], payload = []\<rparr>, True),
       (\<lparr>components = [''Source.setEncoding'', ''cam'', ''raw''], payload = []\<rparr>, True)])"
    by (simp add: Source_new_result setEncoding_result Let_def demo_defs Dictionary_get_def
          SVR_Message_new_def)
  from c1 c2 c3 show ?thesis by blast
qed


text \<open>C10 as stated, with an encoding that is \<^verbatim>\<open>jpeg\<close> or else \<^verbatim>\<open>raw\<close>, fails where
  neither can be set: the result of \<^verbatim>\<open>setEncoding("raw")\<close> is not looked at, and with a
  registry that knows no encoding a successful \<^verbatim>\<open>Source.open\<close> returns a source whose
  encoding is unset.\<close>

theorem Source_new_outcomes_counterexample:
  "SVR_Source_new (demo_env empty_registry accepting) ''cam'' [] =
     (Some (demo_source None None None 4096),
      [(\<lparr>components = [''Source.open'', ''client'', ''cam''], payload = []\<rparr>, True)]) \<and>
   encoding (demo_source None None None 4096) = None \<and>
   encoding (demo_source None None None 4096) \<noteq> Some (Encoding ''jpeg'') \<and>
   encoding (demo_source None None None 4096) \<noteq> Some (Encoding ''raw'')"
  by (simp add: Source_new_result setEncoding_result Let_def demo_defs Dictionary_get_def
        SVR_Message_new_def)

section \<open>The lifetime of the encoder\<close>











section \<open>The frame-properties component\<close>

lemma digit_char_facts:
  assumes "n < 10"
  shows "is_digit (digit_char n)" and "of_char (digit_char n) = 48 + n"
    and "digit_char n \<noteq> CHR '',''" and "digit_char n \<noteq> CHR ''-''"
proof -
  from assms have "n \<in> {0, 1, 2, 3, 4, 5, 6, 7, 8, 9}"
    by auto
  then show "is_digit (digit_char n)" and "of_char (digit_char n) = 48 + n"
    and "digit_char n \<noteq> CHR '',''" and "digit_char n \<noteq> CHR ''-''"
    by (auto simp: digit_char_def is_digit_def)
qed

lemma read_nat_snoc: "read_nat (s @ [ch]) = 10 * read_nat s + (of_char ch - 48)"
  by (simp add: read_nat_def)

lemma dec_nat_digits: "list_all is_digit (dec_nat n) \<and> dec_nat n \<noteq> []"
proof (induction n rule: dec_nat.induct)
  case (1 n)
  show ?case
  proof (cases "n < 10")
    case True
    then show ?thesis by (subst (1 2) dec_nat.simps) (simp add: digit_char_facts)
  next
    case False
    with 1 show ?thesis by (subst (1 2) dec_nat.simps) (simp add: digit_char_facts)
  qed
qed

lemma read_nat_dec_nat: "read_nat (dec_nat n) = n"
proof (induction n rule: dec_nat.induct)
  case (1 n)
  show ?case
  proof (cases "n < 10")
    case True
    then show ?thesis
      by (subst dec_nat.simps) (simp add: read_nat_def digit_char_facts)
  next
    case False
    with 1 show ?thesis
      by (subst dec_nat.simps) (simp add: read_nat_snoc digit_char_facts)
  qed
qed

lemma is_digit_not_sep: "is_digit ch \<Longrightarrow> ch \<noteq> CHR '','' \<and> ch \<noteq> CHR ''-''"
  by (auto simp: is_digit_def)

lemma printf_d_decimal: "is_decimal (printf_d x)"
proof (cases "sint x < 0")
  case True
  then show ?thesis
    using dec_nat_digits [of "nat (- sint x)"] by (simp add: printf_d_def is_decimal_def)
next
  case False
  obtain ch ds where d: "dec_nat (nat (sint x)) = ch # ds"
    using dec_nat_digits [of "nat (sint x)"] by (cases "dec_nat (nat (sint x))") auto
  with dec_nat_digits [of "nat (sint x)"] have "is_digit ch" "list_all is_digit ds" by simp_all
  with False d show ?thesis
    using is_digit_not_sep [of ch] by (simp add: printf_d_def is_decimal_def)
qed

lemma read_int_printf_d: "read_int (printf_d x) = sint x"
proof (cases "sint x < 0")
  case True
  then show ?thesis by (simp add: printf_d_def read_int_def read_nat_dec_nat)
next
  case False
  obtain ch ds where d: "dec_nat (nat (sint x)) = ch # ds"
    using dec_nat_digits [of "nat (sint x)"] by (cases "dec_nat (nat (sint x))") auto
  with dec_nat_digits [of "nat (sint x)"] have "is_digit ch" by simp
  then have "ch \<noteq> CHR ''-''" using is_digit_not_sep by blast
  moreover have "read_nat (ch # ds) = nat (sint x)"
    using read_nat_dec_nat [of "nat (sint x)"] d by simp
  ultimately show ?thesis using False d by (simp add: printf_d_def read_int_def)
qed

lemma printf_d_no_comma: "CHR '','' \<notin> set (printf_d x)"
proof -
  have "CHR '','' \<notin> set (dec_nat n)" for n
    using dec_nat_digits [of n] is_digit_not_sep by (auto simp: list_all_iff)
  then show ?thesis by (simp add: printf_d_def)
qed

lemma split_on_single: "c \<notin> set a \<Longrightarrow> split_on c a = [a]"
  by (induction a) auto

lemma split_on_append: "c \<notin> set a \<Longrightarrow> split_on c (a @ c # rest) = a # split_on c rest"
proof (induction a)
  case Nil
  then show ?case by simp
next
  case (Cons x a)
  then show ?case by auto
qed

lemma split_sprintf_properties:
  "split_on CHR '','' (sprintf_properties fp) =
     [printf_d (SVR_FrameProperties.width fp), printf_d (SVR_FrameProperties.height fp),
      printf_d (SVR_FrameProperties.depth fp), printf_d (channels fp)]"
  by (simp add: sprintf_properties_def split_on_append split_on_single printf_d_no_comma)

text \<open>C8. The message \<open>SVR_Source_setFrameProperties\<close> sends has three components, and
  the third is the width, height, depth and channels printed by \<^verbatim>\<open>%d\<close>, in that order,
  with commas between them. Split at the commas it gives exactly these four fields; each
  field is a decimal integer (digits, after a minus sign for a negative value) and reads
  back as the signed value of the property.\<close>

theorem setFrameProperties_component:
  "\<exists>m. snd (snd (SVR_Source_setFrameProperties e source fp w)) = w @ [(m, True)] \<and>
       length (components m) = 3 \<and>
       components m ! 2 =
         printf_d (SVR_FrameProperties.width fp) @ '','' @
         printf_d (SVR_FrameProperties.height fp) @ '','' @
         printf_d (SVR_FrameProperties.depth fp) @ '','' @
         printf_d (channels fp) \<and>
       split_on CHR '','' (components m ! 2) =
         [printf_d (SVR_FrameProperties.width fp), printf_d (SVR_FrameProperties.height fp),
          printf_d (SVR_FrameProperties.depth fp), printf_d (channels fp)] \<and>
       list_all is_decimal (split_on CHR '','' (components m ! 2)) \<and>
       map read_int (split_on CHR '','' (components m ! 2)) =
         [sint (SVR_FrameProperties.width fp), sint (SVR_FrameProperties.height fp),
          sint (SVR_FrameProperties.depth fp), sint (channels fp)]"
proof -
  let ?m = "SVR_Message_new [''Source.setFrameProperties'', name source, sprintf_properties fp]"
  have w: "snd (snd (SVR_Source_setFrameProperties e source fp w)) = w @ [(?m, True)]"
    by (simp add: setFrameProperties_result Let_def)
  have c: "components ?m ! 2 = sprintf_properties fp" and l: "length (components ?m) = 3"
    by (simp_all add: SVR_Message_new_def)
  have "length (components ?m) = 3 \<and>
       components ?m ! 2 =
         printf_d (SVR_FrameProperties.width fp) @ '','' @
         printf_d (SVR_FrameProperties.height fp) @ '','' @
         printf_d (SVR_FrameProperties.depth fp) @ '','' @
         printf_d (channels fp) \<and>
       split_on CHR '','' (components ?m ! 2) =
         [printf_d (SVR_FrameProperties.width fp), printf_d (SVR_FrameProperties.height fp),
          printf_d (SVR_FrameProperties.depth fp), printf_d (channels fp)] \<and>
       list_all is_decimal (split_on CHR '','' (components ?m ! 2)) \<and>
       map read_int (split_on CHR '','' (components ?m ! 2)) =
         [sint (SVR_FrameProperties.width fp), sint (SVR_FrameProperties.height fp),
          sint (SVR_FrameProperties.depth fp), sint (channels fp)]"
    unfolding c l
    by (simp add: split_sprintf_properties printf_d_decimal read_int_printf_d)
       (simp add: sprintf_properties_def)
  with w show ?thesis
    by (intro exI [of _ ?m]) (rule conjI)
qed

lemma sint_signed_depth: "sint (0x80000008 :: c_int) = - 2147483640"
  by simp

lemma printf_d_signed_depth: "printf_d 0x80000008 = ''-2147483640''"
  unfolding printf_d_def sint_signed_depth
  by (simp add: dec_nat.simps digit_char_def)

lemma printf_d_examples:
  "printf_d 640 = ''640''" "printf_d 480 = ''480''" "printf_d 3 = ''3''"
  by (simp_all add: printf_d_def dec_nat.simps digit_char_def)

lemma sprintf_signed_depth: "sprintf_properties signed_depth = ''640,480,-2147483640,3''"
  by (simp add: sprintf_properties_def signed_depth_def printf_d_examples printf_d_signed_depth)

theorem setFrameProperties_component_witness:
  "snd (snd (SVR_Source_setFrameProperties (demo_env demo_registry accepting)
       (demo_source None None None 4096) signed_depth [])) =
     [(\<lparr>components = [''Source.setFrameProperties'', ''cam'', ''640,480,-2147483640,3''],
        payload = []\<rparr>, True)] \<and>
   split_on CHR '','' ''640,480,-2147483640,3'' = [''640'', ''480'', ''-2147483640'', ''3''] \<and>
   list_all is_decimal [''640'', ''480'', ''-2147483640'', ''3''] \<and>
   map read_int [''640'', ''480'', ''-2147483640'', ''3''] = [640, 480, - 2147483640, 3]"
proof -
  have wire: "snd (snd (SVR_Source_setFrameProperties (demo_env demo_registry accepting)
       (demo_source None None None 4096) signed_depth [])) =
     [(\<lparr>components = [''Source.setFrameProperties'', ''cam'', ''640,480,-2147483640,3''],
        payload = []\<rparr>, True)]"
    by (simp add: setFrameProperties_result Let_def SVR_Message_new_def sprintf_signed_depth
          demo_source_def)
  have fields:
    "printf_d (SVR_FrameProperties.width signed_depth) = ''640''"
    "printf_d (SVR_FrameProperties.height signed_depth) = ''480''"
    "printf_d (SVR_FrameProperties.depth signed_depth) = ''-2147483640''"
    "printf_d (channels signed_depth) = ''3''"
    "sint (SVR_FrameProperties.width signed_depth) = 640"
    "sint (SVR_FrameProperties.height signed_depth) = 480"
    "sint (SVR_FrameProperties.depth signed_depth) = - 2147483640"
    "sint (channels signed_depth) = 3"
    by (simp_all add: signed_depth_def printf_d_examples printf_d_signed_depth)
  from setFrameProperties_component
         [of "demo_env demo_registry accepting" "demo_source None None None 4096"
             signed_depth "[]"]
  have "split_on CHR '','' ''640,480,-2147483640,3'' = [''640'', ''480'', ''-2147483640'', ''3''] \<and>
        list_all is_decimal [''640'', ''480'', ''-2147483640'', ''3''] \<and>
        map read_int [''640'', ''480'', ''-2147483640'', ''3''] = [640, 480, - 2147483640, 3]"
    unfolding wire fields by simp
  with wire show ?thesis by (rule conjI)
qed


section \<open>The messages on the wire\<close>

lemma send_data_wire:
  assumes "send_data e cap message enc w = Some r"
  shows "\<exists>cs. snd r = w @ map (\<lambda>c. (message\<lparr>payload := c\<rparr>, False)) cs"
proof (rule send_data.raw_induct
         [where P = "\<lambda>e cap message enc w r.
                       \<exists>cs. snd r = w @ map (\<lambda>c. (message\<lparr>payload := c\<rparr>, False)) cs",
          OF _ assms],
       goal_cases)
  case (1 sd e cap message enc w r)
  show ?case
  proof (cases "0 < SVR_Encoder_dataReady enc")
    case False
    with 1(2) have "snd r = w @ map (\<lambda>c. (message\<lparr>payload := c\<rparr>, False)) []" by auto
    then show ?thesis by (rule exI)
  next
    case True
    with 1(2)
    have "sd e cap message (enc\<lparr>pending := drop cap (pending enc)\<rparr>)
            (w @ [(message\<lparr>payload := take cap (pending enc)\<rparr>, False)]) = Some r"
      by (simp add: SVR_Encoder_readData_def SVR_Comm_sendMessage_def)
    from 1(1) [OF this] obtain cs where
      "snd r = (w @ [(message\<lparr>payload := take cap (pending enc)\<rparr>, False)]) @
               map (\<lambda>c. (message\<lparr>payload := c\<rparr>, False)) cs" ..
    then have "snd r = w @ map (\<lambda>c. (message\<lparr>payload := c\<rparr>, False))
                             (take cap (pending enc) # cs)"
      by simp
    then show ?thesis by (rule exI)
  qed
qed

lemma sendFrame_encode_wire:
  assumes "sendFrame_encode e source frame w = Some (rc, source', w')"
  shows "\<exists>cs. w' = w @ map (\<lambda>c. (Data_message source c, False)) cs"
proof -
  have dm: "(\<lambda>c. ((SVR_Message_new [''Data'', name source])\<lparr>payload := c\<rparr>, False)) =
            (\<lambda>c. (Data_message source c, False))"
    by (simp add: SVR_Message_new_def Data_message_def)
  have nil: "w = w @ map (\<lambda>c. (Data_message source c, False)) []" by simp
  from assms consider
    (mismatch) "w' = w" |
    (sent) enc1 enc2 where "send_data e (payload_buffer_size source)
                              (SVR_Message_new [''Data'', name source]) enc1 w = Some (enc2, w')"
    by (auto simp: sendFrame_encode_def Let_def split: option.splits if_splits)
  then show ?thesis
  proof cases
    case mismatch
    with nil show ?thesis by blast
  next
    case sent
    from send_data_wire [OF sent] show ?thesis by (simp add: dm)
  qed
qed

lemma sendFrame_wire:
  assumes "SVR_Source_sendFrame e source frame w = Some (rc, source', w')"
  shows "\<exists>pre cs.
           w' = w @ pre @ map (\<lambda>c. (Data_message source c, False)) cs \<and>
           (pre = [] \<or>
            pre = [(SVR_Message_new [''Source.setFrameProperties'', name source,
                                     sprintf_properties (derived_properties frame)], True)])"
proof (cases "encoding source")
  case None
  with assms have "w' = w @ [] @ map (\<lambda>c. (Data_message source c, False)) []"
    by (simp add: SVR_Source_sendFrame_def)
  then show ?thesis by blast
next
  case (Some enc)
  show ?thesis
  proof (cases "frame_properties source")
    case fp: (Some props)
    from assms Some fp have "sendFrame_encode e source frame w = Some (rc, source', w')"
      by (simp add: sendFrame_with_properties)
    from sendFrame_encode_wire [OF this] obtain cs where
      "w' = w @ [] @ map (\<lambda>c. (Data_message source c, False)) cs" by auto
    then show ?thesis by blast
  next
    case fp: None
    let ?rq = "(SVR_Message_new [''Source.setFrameProperties'', name source,
                                 sprintf_properties (derived_properties frame)], True)"
    show ?thesis
    proof (cases "SVR_Comm_parseResponse e (Some (server_response e (w @ [?rq]))) = SVR_SUCCESS")
      case False
      with assms Some fp have "w' = w @ [?rq] @ map (\<lambda>c. (Data_message source c, False)) []"
        by (auto simp: sendFrame_without_properties Let_def)
      then show ?thesis by blast
    next
      case True
      with assms Some fp
      have "sendFrame_encode e (source\<lparr>frame_properties := Some (derived_properties frame)\<rparr>)
              frame (w @ [?rq]) = Some (rc, source', w')"
        by (simp add: sendFrame_without_properties Let_def)
      from sendFrame_encode_wire [OF this] obtain cs where
        "w' = w @ [?rq] @ map (\<lambda>c. (Data_message source c, False)) cs" by auto
      then show ?thesis by blast
    qed
  qed
qed

lemma setEncoding_wire:
  "snd (snd (SVR_Source_setEncoding e source d w)) =
     (case SVR_parseOptionString e d of
        None \<Rightarrow> w
      | Some opts \<Rightarrow>
         (case SVR_Encoding_getByName e (Dictionary_get opts ''%name'') of
            None \<Rightarrow> w
          | Some enc \<Rightarrow> w @ [(SVR_Message_new [''Source.setEncoding'', name source, d], True)]))"
  by (simp add: setEncoding_result Let_def split: option.splits)

lemma Source_new_wire:
  "\<exists>rest. snd (SVR_Source_new e nm w) =
            w @ (SVR_Message_new [''Source.open'', ''client'', nm], True) # rest \<and>
          set rest \<subseteq> {(SVR_Message_new [''Source.setEncoding'', nm, ''jpeg''], True),
                      (SVR_Message_new [''Source.setEncoding'', nm, ''raw''], True)}"
  by (auto simp: Source_new_result Let_def setEncoding_wire split: option.splits)

lemma request_wire: "snd (request e message w) = w @ [(message, True)]"
  by (simp add: request_def SVR_Comm_sendMessage_def Let_def)

text \<open>C7 (as amended). The components of every message the library sends, after the verb:
  \<^verbatim>\<open>Source.open\<close> carries the kind (\<^verbatim>\<open>server\<close> or \<^verbatim>\<open>client\<close>), then the source name, then
  the descriptor for a server source; \<^verbatim>\<open>Source.close\<close> the name; \<^verbatim>\<open>Source.getSourcesList\<close>
  nothing; \<^verbatim>\<open>Source.setEncoding\<close> the name and the descriptor (sent only when the descriptor
  parses and names a registered encoding); \<^verbatim>\<open>Source.setFrameProperties\<close> the name and the
  properties; \<^verbatim>\<open>Data\<close> the name. \<open>SVR_Source_new\<close> sends \<^verbatim>\<open>Source.open\<close> first and
  nothing but \<^verbatim>\<open>Source.setEncoding\<close> for \<^verbatim>\<open>jpeg\<close> or \<^verbatim>\<open>raw\<close> after it;
  \<open>SVR_Source_sendFrame\<close> sends at most one \<^verbatim>\<open>Source.setFrameProperties\<close> request and
  then only \<^verbatim>\<open>Data\<close> messages.\<close>

theorem verb_components:
  "snd (SVR_openServerSource e nm descriptor w) =
     w @ [(\<lparr>components = [''Source.open'', ''server'', nm, descriptor], payload = []\<rparr>, True)] \<and>
   (\<exists>rest. snd (SVR_Source_new e nm w) =
            w @ (\<lparr>components = [''Source.open'', ''client'', nm], payload = []\<rparr>, True) # rest \<and>
          set rest \<subseteq>
            {(\<lparr>components = [''Source.setEncoding'', nm, ''jpeg''], payload = []\<rparr>, True),
             (\<lparr>components = [''Source.setEncoding'', nm, ''raw''], payload = []\<rparr>, True)}) \<and>
   snd (SVR_Source_destroy e source w) =
     w @ [(\<lparr>components = [''Source.close'', name source], payload = []\<rparr>, True)] \<and>
   snd (SVR_closeServerSource e nm w) =
     w @ [(\<lparr>components = [''Source.close'', nm], payload = []\<rparr>, True)] \<and>
   snd (SVR_getSourcesList e w) =
     w @ [(\<lparr>components = [''Source.getSourcesList''], payload = []\<rparr>, True)] \<and>
   snd (snd (SVR_Source_setEncoding e source descriptor w)) =
     (case SVR_parseOptionString e descriptor of
        None \<Rightarrow> w
      | Some opts \<Rightarrow>
         (case SVR_Encoding_getByName e (Dictionary_get opts ''%name'') of
            None \<Rightarrow> w
          | Some enc \<Rightarrow>
              w @ [(\<lparr>components = [''Source.setEncoding'', name source, descriptor],
                     payload = []\<rparr>, True)])) \<and>
   snd (snd (SVR_Source_setFrameProperties e source fp w)) =
     w @ [(\<lparr>components = [''Source.setFrameProperties'', name source, sprintf_properties fp],
            payload = []\<rparr>, True)] \<and>
   (\<forall>rc source' w'.
      SVR_Source_sendFrame e source frame w = Some (rc, source', w') \<longrightarrow>
      (\<exists>pre cs.
         w' = w @ pre @ map (\<lambda>c. (\<lparr>components = [''Data'', name source], payload = c\<rparr>, False)) cs \<and>
         (pre = [] \<or>
          pre = [(\<lparr>components = [''Source.setFrameProperties'', name source,
                                  sprintf_properties (derived_properties frame)],
                    payload = []\<rparr>, True)])))"
proof (intro conjI allI impI)
  show "snd (SVR_openServerSource e nm descriptor w) =
     w @ [(\<lparr>components = [''Source.open'', ''server'', nm, descriptor], payload = []\<rparr>, True)]"
    by (simp add: SVR_openServerSource_def request_wire SVR_Message_new_def)
next
  show "\<exists>rest. snd (SVR_Source_new e nm w) =
            w @ (\<lparr>components = [''Source.open'', ''client'', nm], payload = []\<rparr>, True) # rest \<and>
          set rest \<subseteq>
            {(\<lparr>components = [''Source.setEncoding'', nm, ''jpeg''], payload = []\<rparr>, True),
             (\<lparr>components = [''Source.setEncoding'', nm, ''raw''], payload = []\<rparr>, True)}"
    using Source_new_wire [of e nm w] by (simp add: SVR_Message_new_def)
next
  show "snd (SVR_Source_destroy e source w) =
     w @ [(\<lparr>components = [''Source.close'', name source], payload = []\<rparr>, True)]"
    by (simp add: SVR_Source_destroy_def request_wire SVR_Message_new_def)
next
  show "snd (SVR_closeServerSource e nm w) =
     w @ [(\<lparr>components = [''Source.close'', nm], payload = []\<rparr>, True)]"
    by (simp add: SVR_closeServerSource_def request_wire SVR_Message_new_def)
next
  show "snd (SVR_getSourcesList e w) =
     w @ [(\<lparr>components = [''Source.getSourcesList''], payload = []\<rparr>, True)]"
    by (simp add: SVR_getSourcesList_def SVR_Comm_sendMessage_def SVR_Message_new_def Let_def)
next
  show "snd (snd (SVR_Source_setEncoding e source descriptor w)) =
     (case SVR_parseOptionString e descriptor of
        None \<Rightarrow> w
      | Some opts \<Rightarrow>
         (case SVR_Encoding_getByName e (Dictionary_get opts ''%name'') of
            None \<Rightarrow> w
          | Some enc \<Rightarrow>
              w @ [(\<lparr>components = [''Source.setEncoding'', name source, descriptor],
                     payload = []\<rparr>, True)]))"
    by (simp add: setEncoding_wire SVR_Message_new_def split: option.splits)
next
  show "snd (snd (SVR_Source_setFrameProperties e source fp w)) =
     w @ [(\<lparr>components = [''Source.setFrameProperties'', name source, sprintf_properties fp],
            payload = []\<rparr>, True)]"
    by (simp add: setFrameProperties_result Let_def SVR_Message_new_def)
next
  fix rc source' w'
  assume "SVR_Source_sendFrame e source frame w = Some (rc, source', w')"
  from sendFrame_wire [OF this]
  show "\<exists>pre cs.
         w' = w @ pre @ map (\<lambda>c. (\<lparr>components = [''Data'', name source], payload = c\<rparr>, False)) cs \<and>
         (pre = [] \<or>
          pre = [(\<lparr>components = [''Source.setFrameProperties'', name source,
                                  sprintf_properties (derived_properties frame)],
                    payload = []\<rparr>, True)])"
    by (simp add: SVR_Message_new_def Data_message_def)
qed

text \<open>C7 as stated fails for \<^verbatim>\<open>Source.open\<close>: the message for the source \<^verbatim>\<open>cam\<close> has the
  kind as its second component and the name as its third, for a client source and for a
  server source alike.\<close>

theorem verb_components_counterexample:
  "components (fst (hd (snd (SVR_Source_new (demo_env demo_registry accepting) ''cam'' [])))) =
     [''Source.open'', ''client'', ''cam''] \<and>
   components (fst (hd (snd (SVR_openServerSource (demo_env demo_registry accepting)
                               ''cam'' ''test'' [])))) =
     [''Source.open'', ''server'', ''cam'', ''test''] \<and>
   [''Source.open'', ''client'', ''cam''] ! 1 = ''client'' \<and>
   [''Source.open'', ''client'', ''cam''] ! 2 = ''cam'' \<and>
   [''Source.open'', ''client'', ''cam''] \<noteq> [''Source.open'', ''cam'', ''client'']"
  by (simp add: Source_new_result setEncoding_result Let_def demo_defs Dictionary_get_def
        SVR_Message_new_def SVR_openServerSource_def request_wire)

theorem verb_components_witness:
  "snd (SVR_openServerSource (demo_env demo_registry accepting) ''cam'' ''test'' []) =
     [(\<lparr>components = [''Source.open'', ''server'', ''cam'', ''test''], payload = []\<rparr>, True)] \<and>
   snd (SVR_Source_destroy (demo_env demo_registry accepting)
          (demo_source None None None 4096) []) =
     [(\<lparr>components = [''Source.close'', ''cam''], payload = []\<rparr>, True)] \<and>
   snd (snd (SVR_Source_setEncoding (demo_env demo_registry accepting)
          (demo_source None None None 4096) ''raw'' [])) =
     [(\<lparr>components = [''Source.setEncoding'', ''cam'', ''raw''], payload = []\<rparr>, True)] \<and>
   snd (snd (SVR_Source_setFrameProperties (demo_env demo_registry accepting)
          (demo_source None None None 4096) vga [])) =
     [(\<lparr>components = [''Source.setFrameProperties'', ''cam'', ''640,480,8,3''],
        payload = []\<rparr>, True)]"
  using verb_components [of "demo_env demo_registry accepting" "''cam''" "''test''" "[]"
          "demo_source None None None 4096" vga "demo_frame 640 480 []"]
        verb_components [of "demo_env demo_registry accepting" "''cam''" "''raw''" "[]"
          "demo_source None None None 4096" vga "demo_frame 640 480 []"]
  by (simp add: sprintf_vga)
     (simp add: demo_defs Dictionary_get_def)


end
